theory Spec2Isabelle
  imports Complex_Main "HOL-Library.Char_ord" "HOL-Library.List_Lexorder" "HOL-Library.AList"
begin

section \<open>Text: Python strings over the Latin-1 range\<close>

text \<open>
  A Python \<open>str\<close> is a sequence of code points. The development models a text as a
  \<^typ>\<open>string\<close> whose characters are the code points 0..255 (\<open>of_char\<close> reads the code
  point), and gives every character test of the source its Python meaning on that range:
  \<open>str.isspace\<close> and the regular expression class \<open>\s\<close>, the Unicode word class \<open>\w\<close>
  behind \<open>\b\<close>, \<open>\d\<close>, \<open>str.lower\<close> and the line boundaries of \<open>str.splitlines\<close>.
  Code points above 255 are outside the model.
\<close>

definition LF :: char where
  "LF = CHR 0x0A"

definition CR :: char where
  "CR = CHR 0x0D"

definition is_space :: "char \<Rightarrow> bool" where
  "is_space c = (let n = (of_char c :: nat) in
      (9 \<le> n \<and> n \<le> 13) \<or> (28 \<le> n \<and> n \<le> 32) \<or> n = 133 \<or> n = 160)"

definition is_digit :: "char \<Rightarrow> bool" where
  "is_digit c = (let n = (of_char c :: nat) in 48 \<le> n \<and> n \<le> 57)"

definition is_ascii_alnum :: "char \<Rightarrow> bool" where
  "is_ascii_alnum c = (let n = (of_char c :: nat) in
      (48 \<le> n \<and> n \<le> 57) \<or> (65 \<le> n \<and> n \<le> 90) \<or> (97 \<le> n \<and> n \<le> 122))"

text \<open>\<open>\w\<close> of a \<open>str\<close> pattern: \<open>str.isalnum\<close> or the underscore.\<close>

definition is_word :: "char \<Rightarrow> bool" where
  "is_word c = (let n = (of_char c :: nat) in
      is_ascii_alnum c \<or> n = 95
      \<or> n = 170 \<or> n = 178 \<or> n = 179 \<or> n = 181 \<or> n = 185 \<or> n = 186
      \<or> (188 \<le> n \<and> n \<le> 190)
      \<or> (192 \<le> n \<and> n \<le> 214) \<or> (216 \<le> n \<and> n \<le> 246) \<or> 248 \<le> n)"

definition is_linebreak :: "char \<Rightarrow> bool" where
  "is_linebreak c = (let n = (of_char c :: nat) in
      (10 \<le> n \<and> n \<le> 13) \<or> (28 \<le> n \<and> n \<le> 30) \<or> n = 133)"

definition lower_char :: "char \<Rightarrow> char" where
  "lower_char c = (let n = (of_char c :: nat) in
      if (65 \<le> n \<and> n \<le> 90) \<or> (192 \<le> n \<and> n \<le> 222 \<and> n \<noteq> 215)
      then char_of (n + 32) else c)"

definition upper_char :: "char \<Rightarrow> char" where
  "upper_char c = (let n = (of_char c :: nat) in
      if 97 \<le> n \<and> n \<le> 122 then char_of (n - 32) else c)"

definition lower :: "string \<Rightarrow> string" where
  "lower s = map lower_char s"

text \<open>\<open>s.strip()\<close>, \<open>s.strip(chars)\<close> and \<open>s.rstrip(chars)\<close>.\<close>

definition strip_by :: "(char \<Rightarrow> bool) \<Rightarrow> string \<Rightarrow> string" where
  "strip_by P s = rev (dropWhile P (rev (dropWhile P s)))"

definition strip :: "string \<Rightarrow> string" where
  "strip s = strip_by is_space s"

definition strip_chars :: "string \<Rightarrow> string \<Rightarrow> string" where
  "strip_chars cs s = strip_by (\<lambda>c. c \<in> set cs) s"

definition rstrip_chars :: "string \<Rightarrow> string \<Rightarrow> string" where
  "rstrip_chars cs s = rev (dropWhile (\<lambda>c. c \<in> set cs) (rev s))"

text \<open>\<open>s.startswith(p)\<close>, \<open>s.endswith(p)\<close> and the substring test \<open>t in s\<close>.\<close>

fun startswith :: "string \<Rightarrow> string \<Rightarrow> bool" where
  "startswith s [] = True"
| "startswith [] (p # ps) = False"
| "startswith (c # cs) (p # ps) = (c = p \<and> startswith cs ps)"

definition endswith :: "string \<Rightarrow> string \<Rightarrow> bool" where
  "endswith s p = startswith (rev s) (rev p)"

fun contains :: "string \<Rightarrow> string \<Rightarrow> bool" where
  "contains [] t = (t = [])"
| "contains (c # cs) t = (startswith (c # cs) t \<or> contains cs t)"

text \<open>
  \<open>s.splitlines()\<close>: a line ends at a line boundary (\<open>\r\n\<close> counts once); the boundary is
  dropped, and a text that ends with a boundary has no empty last line.
\<close>

fun splitlines_from :: "string \<Rightarrow> string \<Rightarrow> string list" where
  "splitlines_from cur [] = (if cur = [] then [] else [cur])"
| "splitlines_from cur [c] = (if is_linebreak c then [cur] else [cur @ [c]])"
| "splitlines_from cur (c # d # ds) =
     (if c = CR \<and> d = LF then cur # splitlines_from [] ds
      else if is_linebreak c then cur # splitlines_from [] (d # ds)
      else splitlines_from (cur @ [c]) (d # ds))"

definition splitlines :: "string \<Rightarrow> string list" where
  "splitlines s = splitlines_from [] s"

text \<open>\<open>line.split(":", 1)\<close> on a line that holds a colon: the text before and after the first one.\<close>

definition split_colon :: "string \<Rightarrow> string \<times> string" where
  "split_colon line = (takeWhile (\<lambda>c. c \<noteq> CHR '':'') line, tl (dropWhile (\<lambda>c. c \<noteq> CHR '':'') line))"

text \<open>\<open>sep.join(xs)\<close>.\<close>

fun join :: "string \<Rightarrow> string list \<Rightarrow> string" where
  "join sep [] = []"
| "join sep [x] = x"
| "join sep (x # y # ys) = x @ sep @ join sep (y # ys)"

text \<open>
  \<open>s.title()\<close>. The source applies it to the three section names only, which are ASCII;
  the model cases ASCII letters and leaves every other character as it is.
\<close>

definition is_ascii_alpha :: "char \<Rightarrow> bool" where
  "is_ascii_alpha c = (let n = (of_char c :: nat) in
      (65 \<le> n \<and> n \<le> 90) \<or> (97 \<le> n \<and> n \<le> 122))"

fun title_from :: "bool \<Rightarrow> string \<Rightarrow> string" where
  "title_from inword [] = []"
| "title_from inword (c # cs) =
     (if is_ascii_alpha c
      then (if inword then lower_char c else upper_char c) # title_from True cs
      else c # title_from False cs)"

definition title :: "string \<Rightarrow> string" where
  "title s = title_from False s"

section \<open>Regular expressions of the \<open>re\<close> module\<close>

text \<open>
  The patterns of the source use literals, the classes \<open>\s\<close>, \<open>\d\<close>, \<open>.\<close> and bracket
  sets, greedy and lazy repetition of one class, alternation, the anchors \<open>^\<close>, \<open>$\<close> and
  \<open>\b\<close>, and at most one group. A match state is the character before the current position
  (none at the start of the text) and the text from the position on; the matcher returns
  the states after a match in the order in which the backtracking engine tries them, so
  its first element is the match \<open>re\<close> reports.
\<close>

datatype re_flag = IGNORECASE | MULTILINE | DOTALL

datatype cclass = Space | Digit | Dot | OneOf string

datatype rx =
    Eps
  | Str string
  | Cls cclass
  | Star cclass
  | Plus cclass
  | LazyStar cclass
  | LazyPlus cclass
  | Seq rx rx
  | Alt rx rx
  | Bol
  | Eol
  | WordB

type_synonym mstate = "char option \<times> string"

definition char_matches :: "re_flag list \<Rightarrow> char \<Rightarrow> char \<Rightarrow> bool" where
  "char_matches fl p c = (c = p \<or> (IGNORECASE \<in> set fl \<and> lower_char c = lower_char p))"

fun in_class :: "re_flag list \<Rightarrow> cclass \<Rightarrow> char \<Rightarrow> bool" where
  "in_class fl Space c = is_space c"
| "in_class fl Digit c = is_digit c"
| "in_class fl Dot c = (DOTALL \<in> set fl \<or> c \<noteq> LF)"
| "in_class fl (OneOf cs) c = list_ex (\<lambda>p. char_matches fl p c) cs"

fun match_str :: "re_flag list \<Rightarrow> string \<Rightarrow> mstate \<Rightarrow> mstate option" where
  "match_str fl [] st = Some st"
| "match_str fl (p # ps) (prev, []) = None"
| "match_str fl (p # ps) (prev, c # cs) =
     (if char_matches fl p c then match_str fl ps (Some c, cs) else None)"

text \<open>The states after 0, 1, 2, ... characters of a class, shortest first.\<close>

fun class_run :: "(char \<Rightarrow> bool) \<Rightarrow> mstate \<Rightarrow> mstate list" where
  "class_run P (prev, []) = [(prev, [])]"
| "class_run P (prev, c # cs) =
     (prev, c # cs) # (if P c then class_run P (Some c, cs) else [])"

definition word_before :: "mstate \<Rightarrow> bool" where
  "word_before st = (case fst st of None \<Rightarrow> False | Some c \<Rightarrow> is_word c)"

definition word_after :: "mstate \<Rightarrow> bool" where
  "word_after st = (case snd st of [] \<Rightarrow> False | c # cs \<Rightarrow> is_word c)"

fun rmatch :: "re_flag list \<Rightarrow> rx \<Rightarrow> mstate \<Rightarrow> mstate list" where
  "rmatch fl Eps st = [st]"
| "rmatch fl (Str w) st = (case match_str fl w st of None \<Rightarrow> [] | Some st' \<Rightarrow> [st'])"
| "rmatch fl (Cls k) (prev, []) = []"
| "rmatch fl (Cls k) (prev, c # cs) = (if in_class fl k c then [(Some c, cs)] else [])"
| "rmatch fl (Star k) st = rev (class_run (in_class fl k) st)"
| "rmatch fl (Plus k) st = rev (tl (class_run (in_class fl k) st))"
| "rmatch fl (LazyStar k) st = class_run (in_class fl k) st"
| "rmatch fl (LazyPlus k) st = tl (class_run (in_class fl k) st)"
| "rmatch fl (Seq a b) st = concat (map (rmatch fl b) (rmatch fl a st))"
| "rmatch fl (Alt a b) st = rmatch fl a st @ rmatch fl b st"
| "rmatch fl Bol st =
     (if fst st = None \<or> (MULTILINE \<in> set fl \<and> fst st = Some LF) then [st] else [])"
| "rmatch fl Eol st =
     (if snd st = [] \<or> snd st = [LF] \<or> (MULTILINE \<in> set fl \<and> startswith (snd st) [LF])
      then [st] else [])"
| "rmatch fl WordB st = (if word_before st \<noteq> word_after st then [st] else [])"

fun seqs :: "rx list \<Rightarrow> rx" where
  "seqs [] = Eps"
| "seqs [r] = r"
| "seqs (r # q # rs) = Seq r (seqs (q # rs))"

fun alts :: "rx list \<Rightarrow> rx" where
  "alts [] = Eps"
| "alts [r] = r"
| "alts (r # q # rs) = Alt r (alts (q # rs))"

text \<open>\<open>re.match(p, s)\<close> and \<open>re.search(p, s)\<close>, as the truth value the source tests.\<close>

definition re_match :: "re_flag list \<Rightarrow> rx \<Rightarrow> string \<Rightarrow> bool" where
  "re_match fl r s = (rmatch fl r (None, s) \<noteq> [])"

fun search_from :: "re_flag list \<Rightarrow> rx \<Rightarrow> char option \<Rightarrow> string \<Rightarrow> bool" where
  "search_from fl r prev [] = (rmatch fl r (prev, []) \<noteq> [])"
| "search_from fl r prev (c # cs) =
     (rmatch fl r (prev, c # cs) \<noteq> [] \<or> search_from fl r (Some c) cs)"

definition re_search :: "re_flag list \<Rightarrow> rx \<Rightarrow> string \<Rightarrow> bool" where
  "re_search fl r s = search_from fl r None s"

text \<open>
  A pattern with one group is the part before the group, the group and the part after it.
  The first match in backtracking order gives the group's text and the state at the end
  of the match.
\<close>

type_synonym gpat = "rx \<times> rx \<times> rx"

definition match_group :: "re_flag list \<Rightarrow> gpat \<Rightarrow> mstate \<Rightarrow> (string \<times> mstate) option" where
  "match_group fl p st =
     (case p of (pre, grp, post) \<Rightarrow>
        (case concat (map (\<lambda>s1. concat (map (\<lambda>s2. map (\<lambda>s3. (s1, s2, s3)) (rmatch fl post s2))
                                              (rmatch fl grp s1)))
                          (rmatch fl pre st)) of
           [] \<Rightarrow> None
         | (s1, s2, s3) # _ \<Rightarrow> Some (take (length (snd s1) - length (snd s2)) (snd s1), s3)))"

text \<open>
  \<open>p.findall(s)\<close>: the group of every match, scanning from left to right; the scan goes on
  at the end of a match, and one character further where nothing matches (or where a
  match is empty).
\<close>

function findall_from :: "re_flag list \<Rightarrow> gpat \<Rightarrow> char option \<Rightarrow> string \<Rightarrow> string list" where
  "findall_from fl p prev s =
     (case match_group fl p (prev, s) of
        Some (g, (prev', s')) \<Rightarrow>
          (if length s' < length s then g # findall_from fl p prev' s'
           else (case s of [] \<Rightarrow> [g] | c # cs \<Rightarrow> g # findall_from fl p (Some c) cs))
      | None \<Rightarrow> (case s of [] \<Rightarrow> [] | c # cs \<Rightarrow> findall_from fl p (Some c) cs))"
  by pat_completeness auto
termination
  by (relation "measure (\<lambda>(fl, p, prev, s). length s)") auto

definition findall :: "re_flag list \<Rightarrow> gpat \<Rightarrow> string \<Rightarrow> string list" where
  "findall fl p s = findall_from fl p None s"

section \<open>The analyzer (\<open>src/analyzer.py\<close>)\<close>

text \<open>
  Scores are Python floats. Every dimension score is a small whole number and the overall
  score is a sum of four of them divided by four, all exact in binary floating point, so
  the model computes them in \<^typ>\<open>real\<close>. The metadata dictionary is an association
  list in insertion order, with \<^const>\<open>AList.update\<close> as item assignment.
\<close>

type_synonym metadata = "(string \<times> string) list"

record RunbookAnalysis =
  filename :: string
  overall_score :: real
  completeness_score :: real
  structure_score :: real
  safety_score :: real
  clarity_score :: real
  issues :: "string list"
  recommendations :: "string list"
  metadata :: metadata

definition REQUIRED_SECTIONS :: "string list" where
  "REQUIRED_SECTIONS = [''diagnosis'', ''remediation'', ''rollback'']"

definition REQUIRED_METADATA_KEYS :: "string list" where
  "REQUIRED_METADATA_KEYS =
     [''title'', ''version'', ''service_owner'', ''severity'', ''trigger_criteria'']"

text \<open>\<open>^\s*##\s+(.+?)\s*$\<close> with \<open>re.MULTILINE\<close>.\<close>

definition H2_RE :: gpat where
  "H2_RE = (seqs [Bol, Star Space, Str ''##'', Plus Space], LazyPlus Dot, seqs [Star Space, Eol])"

text \<open>\<open>^\s*---\s*\n(.*?)\n---\s*\n\<close> with \<open>re.DOTALL\<close>.\<close>

definition YAML_FRONTMATTER_RE :: gpat where
  "YAML_FRONTMATTER_RE =
     (seqs [Bol, Star Space, Str ''---'', Star Space, Str [LF]],
      LazyStar Dot,
      seqs [Str (LF # ''---''), Star Space, Str [LF]])"

text \<open>\<open>metadata.get(k)\<close> as a condition: the key is present and its value is not empty.\<close>

definition get_truthy :: "metadata \<Rightarrow> string \<Rightarrow> bool" where
  "get_truthy m k = (case map_of m k of None \<Rightarrow> False | Some v \<Rightarrow> v \<noteq> [])"

subsection \<open>Parsing helpers\<close>

fun parse_yaml_lines :: "string list \<Rightarrow> metadata \<Rightarrow> metadata" where
  "parse_yaml_lines [] meta = meta"
| "parse_yaml_lines (l # ls) meta =
     (let line = strip l in
      if line = [] \<or> startswith line ''#'' then parse_yaml_lines ls meta
      else if CHR '':'' \<notin> set line then parse_yaml_lines ls meta
      else (case split_colon line of (k, v) \<Rightarrow>
              parse_yaml_lines ls
                (AList.update (strip k) (strip_chars [CHR 0x27] (strip_chars [CHR 0x22] (strip v))) meta)))"

definition parse_yaml_kv :: "string \<Rightarrow> metadata" where
  "parse_yaml_kv raw = parse_yaml_lines (splitlines raw) []"

definition parse_frontmatter :: "string \<Rightarrow> metadata \<times> string" where
  "parse_frontmatter content =
     (case match_group [DOTALL] YAML_FRONTMATTER_RE (None, content) of
        None \<Rightarrow> ([], content)
      | Some (raw, (prev, body)) \<Rightarrow> (parse_yaml_kv raw, body))"

subsection \<open>Scoring helpers\<close>

text \<open>\<open>trigger\s*criteria\<close>\<close>

definition TRIGGER_RE :: rx where
  "TRIGGER_RE = seqs [Str ''trigger'', Star Space, Str ''criteria'']"

text \<open>\<open>\b(validate|verification|verify|confirm|check)\b\<close>\<close>

definition VALIDATION_RE :: rx where
  "VALIDATION_RE =
     seqs [WordB,
           alts [Str ''validate'', Str ''verification'', Str ''verify'', Str ''confirm'', Str ''check''],
           WordB]"

text \<open>\<open>\b(escalat|on[- ]call|owner|contact)\b\<close>\<close>

definition ESCALATION_RE :: rx where
  "ESCALATION_RE =
     seqs [WordB,
           alts [Str ''escalat'', seqs [Str ''on'', Cls (OneOf ''- ''), Str ''call''],
                 Str ''owner'', Str ''contact''],
           WordB]"

definition score_completeness ::
  "metadata \<Rightarrow> string \<Rightarrow> string list \<Rightarrow> real \<times> string list \<times> string list" where
  "score_completeness meta body headings =
     (let (score, issues, recs) = (0, [], []);
          (score, issues, recs) =
            (if get_truthy meta ''trigger_criteria'' \<or> re_search [IGNORECASE] TRIGGER_RE body
             then (score + 25, issues, recs)
             else (score,
                   issues @ [''Missing trigger criteria (when to use this runbook).''],
                   recs @ [''Add `trigger_criteria` in frontmatter and describe clear activation conditions.'']));
          present = map (\<lambda>s. (s, s \<in> set headings)) REQUIRED_SECTIONS;
          (score, issues, recs) =
            (if list_all snd present
             then (score + 25, issues, recs)
             else (let missing = map (title \<circ> fst) (filter (\<lambda>p. \<not> snd p) present) in
                   (score,
                    issues @ [''Missing required sections: '' @ join '', '' missing @ ''.''],
                    recs @ [''Add the missing required sections: Diagnosis, Remediation, Rollback.''])));
          (score, issues, recs) =
            (if re_search [IGNORECASE] VALIDATION_RE body
             then (score + 25, issues, recs)
             else (score,
                   issues @ [''No explicit validation/verification steps found.''],
                   recs @ [''Add a 'Validation' step after remediation to confirm the issue is resolved.'']));
          (score, issues, recs) =
            (if get_truthy meta ''service_owner'' \<or> re_search [IGNORECASE] ESCALATION_RE body
             then (score + 25, issues, recs)
             else (score,
                   issues @ [''No service owner / escalation contact found.''],
                   recs @ [''Add `service_owner` in frontmatter and escalation/on-call contact info.'']))
      in (score, issues, recs))"

definition score_structure ::
  "metadata \<Rightarrow> string \<Rightarrow> string list \<Rightarrow> real \<times> string list \<times> string list" where
  "score_structure meta body headings =
     (let (score, issues, recs) = (0, [], []);
          (score, issues, recs) =
            (if meta \<noteq> []
             then (let score = score + 40;
                       missing_keys = filter (\<lambda>k. \<not> get_truthy meta k) REQUIRED_METADATA_KEYS
                   in if missing_keys \<noteq> []
                      then (score - min 40 (8 * real (length missing_keys)),
                            issues @ [''Frontmatter is missing keys: '' @ join '', '' missing_keys @ ''.''],
                            recs @ [''Add missing required frontmatter keys (title, version, service_owner, severity, trigger_criteria).''])
                      else (score, issues, recs))
             else (score,
                   issues @ [''Missing YAML frontmatter metadata block.''],
                   recs @ [''Add a YAML frontmatter block (`--- ... ---`) with runbook metadata.'']));
          (score, issues, recs) =
            (if headings \<noteq> []
             then (score + 30, issues, recs)
             else (score,
                   issues @ [''No H2 sections (##) detected; runbook may be poorly structured.''],
                   recs @ [''Use consistent headings like '## Diagnosis', '## Remediation', and '## Rollback'.'']));
          (score, issues, recs) =
            (if get_truthy meta ''version''
             then (score + 15, issues, recs)
             else (score,
                   issues @ [''No version found in metadata.''],
                   recs @ [''Add a `version` field in frontmatter for runbook change control.'']));
          (score, issues, recs) =
            (if get_truthy meta ''service_owner''
             then (score + 15, issues, recs)
             else (score,
                   issues @ [''No service owner found in metadata.''],
                   recs @ [''Add `service_owner` in frontmatter.'']))
      in (min 100 score, issues, recs))"

definition destructive_patterns :: "rx list" where
  "destructive_patterns =
     [seqs [WordB, Str ''rm'', Plus Space, Str ''-rf'', WordB],
      seqs [WordB, alts [seqs [Str ''drop'', Plus Space, Str ''database''],
                         seqs [Str ''drop'', Plus Space, Str ''table'']], WordB],
      seqs [WordB, seqs [Str ''delete'', Plus Space, Str ''from''], WordB],
      seqs [WordB, seqs [Str ''kill'', Plus Space, Str ''-9''], WordB],
      seqs [WordB, Str ''shutdown'', WordB],
      seqs [WordB, Str ''reboot'', WordB]]"

text \<open>\<open>\b(confirm|are you sure|double[- ]check|approval)\b\<close>\<close>

definition CONFIRM_RE :: rx where
  "CONFIRM_RE =
     seqs [WordB,
           alts [Str ''confirm'', Str ''are you sure'',
                 seqs [Str ''double'', Cls (OneOf ''- ''), Str ''check''], Str ''approval''],
           WordB]"

text \<open>\<open>\b(safety|warning|caution)\b\<close>\<close>

definition SAFETY_RE :: rx where
  "SAFETY_RE = seqs [WordB, alts [Str ''safety'', Str ''warning'', Str ''caution''], WordB]"

definition score_safety :: "string \<Rightarrow> string list \<Rightarrow> real \<times> string list \<times> string list" where
  "score_safety body headings =
     (let (score, issues, recs) = (100, [], []);
          destructive_found = list_ex (\<lambda>p. re_search [IGNORECASE] p body) destructive_patterns;
          (score, issues, recs) =
            (if destructive_found \<and> \<not> re_search [IGNORECASE] CONFIRM_RE body
             then (score - 35,
                   issues @ [''Potentially destructive actions detected without an explicit confirmation/approval step.''],
                   recs @ [''Add a confirmation/approval step before any destructive command.''])
             else (score, issues, recs));
          (score, issues, recs) =
            (if ''rollback'' \<notin> set headings
             then (score - 40,
                   issues @ [''No rollback section found (required for safe operations).''],
                   recs @ [''Add a Rollback section with clear recovery steps.''])
             else (score, issues, recs));
          (score, issues, recs) =
            (if \<not> re_search [IGNORECASE] SAFETY_RE body
             then (score - 15,
                   issues @ [''No safety warnings/cautions found.''],
                   recs @ [''Add a short 'Safety' note (permissions, impact, maintenance window, backups).''])
             else (score, issues, recs))
      in (max 0 (min 100 score), issues, recs))"

text \<open>\<open>^\s*(\d+\.|\-|\*)\s+\<close>\<close>

definition STEP_RE :: rx where
  "STEP_RE =
     seqs [Bol, Star Space, alts [seqs [Plus Digit, Str ''.''], Str ''-'', Str ''*''], Plus Space]"

definition score_clarity :: "string \<Rightarrow> real \<times> string list \<times> string list" where
  "score_clarity body =
     (let lines = map (rstrip_chars [LF]) (splitlines body);
          non_empty = filter (\<lambda>ln. strip ln \<noteq> []) lines
      in if non_empty = []
         then (0, [''Runbook content is empty.''], [''Add clear, step-by-step runbook content.''])
         else
          (let has_steps = list_ex (re_match [] STEP_RE) non_empty;
               has_code_fences = contains body ''```'';
               long_lines = filter (\<lambda>ln. length ln > 140) non_empty;
               score = 0;
               score = score + (if has_steps then 45 else 20);
               score = score + (if has_code_fences then 30 else 15);
               score = score + (if length long_lines \<le> max 3 (length non_empty div 10) then 25 else 10);
               (issues, recs) = ([], []);
               (issues, recs) =
                 (if \<not> has_steps
                  then (issues @ [''No step-by-step list detected (harder to follow during incidents).''],
                        recs @ [''Use numbered steps for Diagnosis/Remediation/Rollback procedures.''])
                  else (issues, recs));
               (issues, recs) =
                 (if \<not> has_code_fences
                  then (issues @ [''No fenced code blocks found for commands.''],
                        recs @ [''Wrap commands in fenced code blocks (```bash ... ```).''])
                  else (issues, recs));
               (issues, recs) =
                 (if long_lines \<noteq> []
                  then (issues @ [''Runbook contains very long lines that may reduce readability.''],
                        recs @ [''Wrap long lines and keep steps concise (aim for <140 chars per line).''])
                  else (issues, recs))
           in (min 100 score, issues, recs)))"

subsection \<open>Files and directories\<close>

text \<open>
  The file system as the source sees it: a path names a regular file, a directory or
  nothing. A file is given by its text as \<open>_read_text\<close> decodes it (the chain of encodings
  ends in a lossy decoding that accepts every byte sequence, so decoding never fails). A
  directory is given by the names \<open>os.listdir\<close> returns, in that order; a name may be
  listed and still name nothing (a dangling link) or name a directory. A file or a
  directory may also exist without the permission to open or to list it: \<open>open\<close> and
  \<open>os.listdir\<close> then raise \<open>PermissionError\<close>.
  \<open>os.path.exists\<close> is \<open>fs path \<noteq> None\<close>.
\<close>

datatype node = File string | Dir "string list" | LockedFile | LockedDir

type_synonym filesystem = "string \<Rightarrow> node option"

datatype py_error =
    FileNotFoundError string
  | IsADirectoryError string
  | NotADirectoryError string
  | PermissionError string

definition isdir :: "filesystem \<Rightarrow> string \<Rightarrow> bool" where
  "isdir fs path =
     (case fs path of Some (Dir names) \<Rightarrow> True | Some LockedDir \<Rightarrow> True | _ \<Rightarrow> False)"

text \<open>\<open>os.listdir(path)\<close>: raises for everything but a directory that may be listed.\<close>

definition listdir :: "filesystem \<Rightarrow> string \<Rightarrow> py_error + string list" where
  "listdir fs path =
     (case fs path of
        None \<Rightarrow> Inl (FileNotFoundError path)
      | Some (Dir names) \<Rightarrow> Inr names
      | Some LockedDir \<Rightarrow> Inl (PermissionError path)
      | Some (File content) \<Rightarrow> Inl (NotADirectoryError path)
      | Some LockedFile \<Rightarrow> Inl (NotADirectoryError path))"

text \<open>
  \<open>open(path).read()\<close>: raises for a missing path, for a directory and for a path that
  may not be opened.
\<close>

definition read_text :: "filesystem \<Rightarrow> string \<Rightarrow> py_error + string" where
  "read_text fs path =
     (case fs path of
        None \<Rightarrow> Inl (FileNotFoundError path)
      | Some (Dir names) \<Rightarrow> Inl (IsADirectoryError path)
      | Some LockedDir \<Rightarrow> Inl (PermissionError path)
      | Some LockedFile \<Rightarrow> Inl (PermissionError path)
      | Some (File content) \<Rightarrow> Inr content)"

text \<open>\<open>os.path.join(a, b)\<close> and \<open>os.path.basename(p)\<close> of \<open>posixpath\<close>.\<close>

definition path_join :: "string \<Rightarrow> string \<Rightarrow> string" where
  "path_join a b =
     (if startswith b ''/'' then b
      else if a = [] \<or> endswith a ''/'' then a @ b
      else a @ ''/'' @ b)"

definition basename :: "string \<Rightarrow> string" where
  "basename p = rev (takeWhile (\<lambda>c. c \<noteq> CHR ''/'') (rev p))"

subsection \<open>Analysis of one runbook and of a directory\<close>

definition analyze_runbook :: "filesystem \<Rightarrow> string \<Rightarrow> py_error + RunbookAnalysis" where
  "analyze_runbook fs runbook_path =
     (if fs runbook_path = None then Inl (FileNotFoundError runbook_path)
      else (case read_text fs runbook_path of
              Inl e \<Rightarrow> Inl e
            | Inr content \<Rightarrow>
               (let (meta, body) = parse_frontmatter content;
                    headings = map (lower \<circ> strip) (findall [MULTILINE] H2_RE body);
                    (completeness, completeness_issues, completeness_recs) =
                       score_completeness meta body headings;
                    (structure, structure_issues, structure_recs) =
                       score_structure meta body headings;
                    (safety, safety_issues, safety_recs) = score_safety body headings;
                    (clarity, clarity_issues, clarity_recs) = score_clarity body;
                    issues = completeness_issues @ structure_issues @ safety_issues @ clarity_issues;
                    recommendations = completeness_recs @ structure_recs @ safety_recs @ clarity_recs;
                    overall = (completeness + structure + safety + clarity) / 4
                in Inr \<lparr> filename = basename runbook_path,
                         overall_score = overall,
                         completeness_score = completeness,
                         structure_score = structure,
                         safety_score = safety,
                         clarity_score = clarity,
                         issues = issues,
                         recommendations = recommendations,
                         metadata = meta \<rparr>)))"

text \<open>
  The loop of \<open>analyze_all_runbooks\<close> over the sorted names; \<open>except Exception: continue\<close>
  is the \<open>Inl\<close> branch. The call of \<open>os.listdir\<close> stands before the loop and outside the
  \<open>try\<close>, so its error leaves the function.
\<close>

fun analyze_names ::
  "filesystem \<Rightarrow> string \<Rightarrow> string list \<Rightarrow> RunbookAnalysis list \<Rightarrow> RunbookAnalysis list" where
  "analyze_names fs runbook_dir [] analyses = analyses"
| "analyze_names fs runbook_dir (name # names) analyses =
     (if \<not> endswith (lower name) ''.md'' then analyze_names fs runbook_dir names analyses
      else (case analyze_runbook fs (path_join runbook_dir name) of
              Inr a \<Rightarrow> analyze_names fs runbook_dir names (analyses @ [a])
            | Inl e \<Rightarrow> analyze_names fs runbook_dir names analyses))"

definition analyze_all_runbooks :: "filesystem \<Rightarrow> string \<Rightarrow> py_error + RunbookAnalysis list" where
  "analyze_all_runbooks fs runbook_dir =
     (if \<not> isdir fs runbook_dir then Inr []
      else (case listdir fs runbook_dir of
              Inl e \<Rightarrow> Inl e
            | Inr names \<Rightarrow> Inr (analyze_names fs runbook_dir (sort names) [])))"

section \<open>The agent (\<open>src/agent.py\<close>)\<close>

text \<open>\<open>re.findall(r"[a-zA-Z0-9_]+", text.lower())\<close>, keeping the tokens of length 3 and more.\<close>

definition is_token_char :: "char \<Rightarrow> bool" where
  "is_token_char c = (is_ascii_alnum c \<or> c = CHR ''_'')"

fun token_scan :: "string \<Rightarrow> string \<Rightarrow> string list" where
  "token_scan cur [] = (if cur = [] then [] else [cur])"
| "token_scan cur (c # cs) =
     (if is_token_char c then token_scan (cur @ [c]) cs
      else if cur = [] then token_scan [] cs
      else cur # token_scan [] cs)"

definition tokens :: "string \<Rightarrow> string list" where
  "tokens s = filter (\<lambda>t. length t \<ge> 3) (token_scan [] (lower s))"

definition keyword_score :: "string list \<Rightarrow> string \<Rightarrow> nat" where
  "keyword_score alert_tokens content =
     (let hay = lower content
      in length (filter (\<lambda>t. t \<noteq> [] \<and> contains hay t) alert_tokens))"

text \<open>
  The loop of \<open>_find_best_runbook\<close> with its state \<open>best\<close>; neither \<open>os.listdir\<close> nor the
  reading of a candidate is guarded, so an error of either leaves the function.
\<close>

fun best_of ::
  "filesystem \<Rightarrow> string \<Rightarrow> string list \<Rightarrow> string list \<Rightarrow> nat \<times> string option
     \<Rightarrow> py_error + (nat \<times> string option)" where
  "best_of fs runbook_dir alert_tokens [] best = Inr best"
| "best_of fs runbook_dir alert_tokens (name # names) best =
     (if \<not> endswith (lower name) ''.md'' then best_of fs runbook_dir alert_tokens names best
      else (let path = path_join runbook_dir name
            in case read_text fs path of
                 Inl e \<Rightarrow> Inl e
               | Inr content \<Rightarrow>
                  (let score = keyword_score alert_tokens content
                   in if score > fst best
                      then best_of fs runbook_dir alert_tokens names (score, Some path)
                      else best_of fs runbook_dir alert_tokens names best)))"

definition find_best_runbook :: "filesystem \<Rightarrow> string \<Rightarrow> string \<Rightarrow> py_error + string option" where
  "find_best_runbook fs runbook_dir alert_text =
     (if \<not> isdir fs runbook_dir then Inr None
      else (let alert_tokens = tokens alert_text
            in case listdir fs runbook_dir of
                 Inl e \<Rightarrow> Inl e
               | Inr names \<Rightarrow>
                  (case best_of fs runbook_dir alert_tokens names (0, None) of
                     Inl e \<Rightarrow> Inl e
                   | Inr best \<Rightarrow> Inr (snd best))))"

section \<open>The chatbot's mode detection (\<open>src/chatbot.py\<close>)\<close>

datatype mode = analysis | incident | general

text \<open>\<open>\b(analyz|health|score|review|assess|improv|recommend)\b\<close>\<close>

definition ANALYSIS_RE :: rx where
  "ANALYSIS_RE =
     seqs [WordB,
           alts [Str ''analyz'', Str ''health'', Str ''score'', Str ''review'', Str ''assess'',
                 Str ''improv'', Str ''recommend''],
           WordB]"

text \<open>\<open>\b(incident|alert|error|failure|latency|timeout|crash|outage)\b\<close>\<close>

definition INCIDENT_RE :: rx where
  "INCIDENT_RE =
     seqs [WordB,
           alts [Str ''incident'', Str ''alert'', Str ''error'', Str ''failure'', Str ''latency'',
                 Str ''timeout'', Str ''crash'', Str ''outage''],
           WordB]"

definition detect_mode :: "string \<Rightarrow> mode" where
  "detect_mode message =
     (let m = lower message
      in if re_search [] ANALYSIS_RE m then analysis
         else if re_search [] INCIDENT_RE m then incident
         else general)"

section \<open>Example inputs\<close>

text \<open>
  A small file system: the directory \<open>rb\<close> lists two runbooks, a text file that is not a
  runbook, a subdirectory whose name ends in \<open>.md\<close> and a name that points nowhere; the
  directory \<open>ok\<close> lists three readable runbooks; the directory \<open>locked\<close> may not be listed.
\<close>

definition example_fs :: filesystem where
  "example_fs =
     [''rb'' \<mapsto> Dir [''b.MD'', ''notes.txt'', ''a.md'', ''sub.md'', ''gone.md''],
      ''rb/a.md'' \<mapsto> File ''database latency'',
      ''rb/b.MD'' \<mapsto> File ''disk'',
      ''rb/notes.txt'' \<mapsto> File ''high'',
      ''rb/sub.md'' \<mapsto> Dir [],
      ''ok'' \<mapsto> Dir [''z.md'', ''b.md'', ''a.md''],
      ''ok/z.md'' \<mapsto> File ''disk full'',
      ''ok/b.md'' \<mapsto> File ''Latency of the DATABASE'',
      ''ok/a.md'' \<mapsto> File ''database latency'',
      ''locked'' \<mapsto> LockedDir]"

section \<open>Ranges of the four scores\<close>

lemma score_completeness_range:
  "0 \<le> fst (score_completeness meta body headings) \<and>
   fst (score_completeness meta body headings) \<le> 100"
  by (simp add: score_completeness_def Let_def)

lemma score_structure_range:
  "0 \<le> fst (score_structure meta body headings) \<and>
   fst (score_structure meta body headings) \<le> 100"
proof -
  define m where
    "m = min 40 (8 * real (length (filter (\<lambda>k. \<not> get_truthy meta k) REQUIRED_METADATA_KEYS)))"
  have m: "0 \<le> m" "m \<le> 40"
    by (simp_all add: m_def)
  show ?thesis
    unfolding score_structure_def Let_def m_def[symmetric]
    using m by (auto split: if_splits)
qed

lemma score_safety_range:
  "10 \<le> fst (score_safety body headings) \<and> fst (score_safety body headings) \<le> 100"
  by (simp add: score_safety_def Let_def)

lemma score_clarity_range:
  "0 \<le> fst (score_clarity body) \<and> fst (score_clarity body) \<le> 100"
  by (simp add: score_clarity_def Let_def)

text \<open>What \<open>analyze_runbook\<close> returns for a path that names a regular file.\<close>

lemma analyze_runbook_File:
  assumes "fs p = Some (File content)"
  shows "\<exists>r. analyze_runbook fs p = Inr r \<and>
     (let (meta, body) = parse_frontmatter content;
          headings = map (lower \<circ> strip) (findall [MULTILINE] H2_RE body)
      in completeness_score r = fst (score_completeness meta body headings) \<and>
         structure_score r = fst (score_structure meta body headings) \<and>
         safety_score r = fst (score_safety body headings) \<and>
         clarity_score r = fst (score_clarity body) \<and>
         overall_score r =
           (completeness_score r + structure_score r + safety_score r + clarity_score r) / 4 \<and>
         metadata r = meta \<and> filename r = basename p)"
  using assms by (simp add: analyze_runbook_def read_text_def Let_def split: prod.splits)

lemma analyze_runbook_Inr_File:
  assumes "analyze_runbook fs p = Inr r"
  shows "\<exists>content. fs p = Some (File content)"
proof (cases "fs p")
  case None
  with assms show ?thesis by (simp add: analyze_runbook_def)
next
  case (Some n)
  with assms show ?thesis
    by (cases n) (simp_all add: analyze_runbook_def read_text_def)
qed

text \<open>
  C1. Whenever \<open>analyze_runbook\<close> returns an analysis, and it does so for every path that
  names a file whatever the file's text is, each of the four dimension scores lies
  between 0 and 100 and the overall score is exactly their sum divided by four.
\<close>

theorem analyze_runbook_scores:
  "(fs p = Some (File content) \<longrightarrow> (\<exists>r. analyze_runbook fs p = Inr r)) \<and>
   (analyze_runbook fs p = Inr r \<longrightarrow>
      0 \<le> completeness_score r \<and> completeness_score r \<le> 100 \<and>
      0 \<le> structure_score r \<and> structure_score r \<le> 100 \<and>
      0 \<le> safety_score r \<and> safety_score r \<le> 100 \<and>
      0 \<le> clarity_score r \<and> clarity_score r \<le> 100 \<and>
      overall_score r =
        (completeness_score r + structure_score r + safety_score r + clarity_score r) / 4)"
proof (intro conjI impI)
  assume "fs p = Some (File content)"
  then show "\<exists>r. analyze_runbook fs p = Inr r"
    using analyze_runbook_File[of fs p content] by blast
next
  assume r: "analyze_runbook fs p = Inr r"
  then obtain doc where "fs p = Some (File doc)"
    using analyze_runbook_Inr_File by blast
  with analyze_runbook_File[of fs p doc] r
  obtain meta body headings where
    c: "completeness_score r = fst (score_completeness meta body headings)" and
    s: "structure_score r = fst (score_structure meta body headings)" and
    sa: "safety_score r = fst (score_safety body headings)" and
    cl: "clarity_score r = fst (score_clarity body)" and
    ov: "overall_score r =
           (completeness_score r + structure_score r + safety_score r + clarity_score r) / 4"
    by (auto simp: Let_def split: prod.splits)
  have sa10: "10 \<le> safety_score r" "safety_score r \<le> 100"
    using score_safety_range[of body headings] sa by simp_all
  show "0 \<le> completeness_score r" "completeness_score r \<le> 100"
    using score_completeness_range[of meta body headings] c by simp_all
  show "0 \<le> structure_score r" "structure_score r \<le> 100"
    using score_structure_range[of meta body headings] s by simp_all
  show "0 \<le> safety_score r" "safety_score r \<le> 100"
    using sa10 by simp_all
  show "0 \<le> clarity_score r" "clarity_score r \<le> 100"
    using score_clarity_range[of body] cl by simp_all
  show "overall_score r =
          (completeness_score r + structure_score r + safety_score r + clarity_score r) / 4"
    by (rule ov)
qed

lemma example_fs_a: "example_fs ''rb/a.md'' = Some (File ''database latency'')"
  by (simp add: example_fs_def)

theorem analyze_runbook_scores_witness:
  "\<exists>r. analyze_runbook example_fs ''rb/a.md'' = Inr r \<and>
       0 \<le> completeness_score r \<and> completeness_score r \<le> 100 \<and>
       0 \<le> structure_score r \<and> structure_score r \<le> 100 \<and>
       0 \<le> safety_score r \<and> safety_score r \<le> 100 \<and>
       0 \<le> clarity_score r \<and> clarity_score r \<le> 100 \<and>
       overall_score r =
         (completeness_score r + structure_score r + safety_score r + clarity_score r) / 4"
proof -
  obtain r where r: "analyze_runbook example_fs ''rb/a.md'' = Inr r"
    using analyze_runbook_scores[of example_fs "''rb/a.md''" "''database latency''"] example_fs_a
    by blast
  show ?thesis
    using analyze_runbook_scores[of example_fs "''rb/a.md''" _ r] r by blast
qed

text \<open>
  C10. For every body text and heading list the safety score is at least 10: the three
  deductions are 35, 40 and 15, so the score never drops below 100 - 90, the lower clamp
  at 0 never applies and a safety score of 0 cannot occur.
\<close>

theorem score_safety_at_least_10:
  "10 \<le> fst (score_safety body headings) \<and> fst (score_safety body headings) \<noteq> 0"
proof -
  have "10 \<le> fst (score_safety body headings)"
    by (simp add: score_safety_def Let_def)
  then show ?thesis by simp
qed

section \<open>The empty document\<close>

lemma parse_frontmatter_empty: "parse_frontmatter [] = ([], [])"
  by code_simp

lemma findall_H2_empty: "findall [MULTILINE] H2_RE [] = []"
  by code_simp

lemma score_completeness_empty: "fst (score_completeness [] [] []) = 0"
  by code_simp

lemma score_structure_empty: "fst (score_structure [] [] []) = 0"
  by code_simp

lemma score_safety_empty:
  "score_safety [] [] =
     (45, [''No rollback section found (required for safe operations).'',
           ''No safety warnings/cautions found.''],
          [''Add a Rollback section with clear recovery steps.'',
           ''Add a short 'Safety' note (permissions, impact, maintenance window, backups).''])"
  by code_simp

lemma score_clarity_empty:
  "score_clarity [] =
     (0, [''Runbook content is empty.''], [''Add clear, step-by-step runbook content.''])"
  by code_simp

text \<open>
  C4. The empty text has no frontmatter (empty metadata, empty body) and no headings, and
  on it the scorers return completeness 0, structure 0, safety 45 (100 with 40 taken off
  for the missing rollback heading and 15 for the missing safety vocabulary, nothing for
  destructive actions) and clarity 0 with the single issue of the empty-content branch.
\<close>

theorem empty_document_scores:
  "parse_frontmatter [] = ([], []) \<and>
   findall [MULTILINE] H2_RE [] = [] \<and>
   fst (score_completeness [] [] []) = 0 \<and>
   fst (score_structure [] [] []) = 0 \<and>
   score_safety [] [] =
     (100 - 40 - 15,
      [''No rollback section found (required for safe operations).'',
       ''No safety warnings/cautions found.''],
      [''Add a Rollback section with clear recovery steps.'',
       ''Add a short 'Safety' note (permissions, impact, maintenance window, backups).'']) \<and>
   score_clarity [] =
     (0, [''Runbook content is empty.''], [''Add clear, step-by-step runbook content.''])"
  using parse_frontmatter_empty findall_H2_empty score_completeness_empty
    score_structure_empty score_safety_empty score_clarity_empty
  by simp

section \<open>Mode detection\<close>

text \<open>
  C2. The pattern of the analysis vocabulary holds the stems \<open>analyz\<close> and \<open>improv\<close> between
  two word boundaries, so the words "analyze" and "improve" do not match it. The message
  of the claim is classified as \<open>incident\<close> (its word "alert" matches the incident
  pattern), and the message the chatbot's own help text suggests for an analysis is
  classified as \<open>general\<close>.
\<close>

theorem detect_mode_analyze_alert:
  "detect_mode ''Please analyze this alert for latency issues'' = incident \<and>
   detect_mode ''analyze my runbook'' = general \<and>
   detect_mode ''Analyze my runbooks'' = general"
  by code_simp

section \<open>Facts about the string operations\<close>

lemma startswith_iff: "startswith s p \<longleftrightarrow> (\<exists>r. s = p @ r)"
  by (induction s p rule: startswith.induct) auto

lemma endswith_iff: "endswith s p \<longleftrightarrow> (\<exists>r. s = r @ p)"
proof -
  have "endswith s p \<longleftrightarrow> (\<exists>r. rev s = rev p @ r)"
    by (simp add: endswith_def startswith_iff)
  also have "\<dots> \<longleftrightarrow> (\<exists>r. s = r @ p)"
  proof
    assume "\<exists>r. rev s = rev p @ r"
    then obtain r where "rev s = rev p @ r" ..
    then have "s = rev r @ p" by (metis rev_append rev_rev_ident)
    then show "\<exists>r. s = r @ p" ..
  next
    assume "\<exists>r. s = r @ p"
    then obtain r where "s = r @ p" ..
    then have "rev s = rev p @ rev r" by simp
    then show "\<exists>r. rev s = rev p @ r" ..
  qed
  finally show ?thesis .
qed

lemma contains_iff: "contains s t \<longleftrightarrow> (\<exists>pre post. s = pre @ t @ post)"
proof (induction s)
  case Nil
  then show ?case by auto
next
  case (Cons c cs)
  show ?case
  proof
    assume "contains (c # cs) t"
    then consider "startswith (c # cs) t" | "contains cs t" by auto
    then show "\<exists>pre post. c # cs = pre @ t @ post"
    proof cases
      case 1
      then obtain r where "c # cs = t @ r" by (auto simp: startswith_iff)
      then have "c # cs = [] @ t @ r" by simp
      then show ?thesis by blast
    next
      case 2
      then obtain pre post where "cs = pre @ t @ post" using Cons.IH by blast
      then have "c # cs = (c # pre) @ t @ post" by simp
      then show ?thesis by blast
    qed
  next
    assume "\<exists>pre post. c # cs = pre @ t @ post"
    then obtain pre post where e: "c # cs = pre @ t @ post" by blast
    show "contains (c # cs) t"
    proof (cases pre)
      case Nil
      with e have "startswith (c # cs) t" by (auto simp: startswith_iff)
      then show ?thesis by simp
    next
      case (Cons a pre')
      with e have "cs = pre' @ t @ post" by simp
      then have "contains cs t" using Cons.IH by blast
      then show ?thesis by simp
    qed
  qed
qed

lemma endswith_lower_iff:
  "endswith (lower name) e \<longleftrightarrow> (\<exists>stem ext. name = stem @ ext \<and> lower ext = e)"
proof
  assume "endswith (lower name) e"
  then obtain r where r: "map lower_char name = r @ e"
    by (auto simp: endswith_iff lower_def)
  then obtain stem ext where se: "name = stem @ ext" "map lower_char ext = e"
    unfolding map_eq_append_conv by blast
  then have "name = stem @ ext \<and> lower ext = e" by (simp add: lower_def)
  then show "\<exists>stem ext. name = stem @ ext \<and> lower ext = e" by blast
next
  assume "\<exists>stem ext. name = stem @ ext \<and> lower ext = e"
  then obtain stem ext where "name = stem @ ext" "lower ext = e" by blast
  then have "lower name = lower stem @ e" by (simp add: lower_def)
  then show "endswith (lower name) e" unfolding endswith_iff by blast
qed

text \<open>A name passes the test of the two directory loops when it ends in \<open>.md\<close> in any letter case.\<close>

lemma ends_md_iff:
  "endswith (lower name) ''.md'' \<longleftrightarrow> (\<exists>stem ext. name = stem @ ext \<and> lower ext = ''.md'')"
  by (rule endswith_lower_iff)

section \<open>Batch analysis\<close>

lemma analyze_names_eq:
  "analyze_names fs d names acc =
     acc @ List.map_filter
             (\<lambda>n. case analyze_runbook fs (path_join d n) of Inr a \<Rightarrow> Some a | Inl e \<Rightarrow> None)
             (filter (\<lambda>n. endswith (lower n) ''.md'') names)"
  by (induction names arbitrary: acc) (simp_all add: List.map_filter_simps split: sum.splits)

text \<open>
  C7. For a path that is not a directory \<open>analyze_all_runbooks\<close> returns the empty list.
  For a directory whose listing can be read it returns a list and no error: in the order
  of the sorted names, the analysis of every entry whose name ends in \<open>.md\<close> in any letter
  case and whose analysis succeeds; an entry whose analysis raises contributes nothing,
  and the other analyses are all there.
\<close>

theorem analyze_all_runbooks_skips:
  "(\<not> isdir fs d \<longrightarrow> analyze_all_runbooks fs d = Inr []) \<and>
   (listdir fs d = Inr names \<longrightarrow>
      analyze_all_runbooks fs d =
        Inr (List.map_filter
               (\<lambda>n. case analyze_runbook fs (path_join d n) of Inr a \<Rightarrow> Some a | Inl e \<Rightarrow> None)
               (filter (\<lambda>n. endswith (lower n) ''.md'') (sort names))))"
proof (intro conjI impI)
  assume "\<not> isdir fs d"
  then show "analyze_all_runbooks fs d = Inr []"
    by (simp add: analyze_all_runbooks_def)
next
  assume l: "listdir fs d = Inr names"
  then have "isdir fs d"
    by (auto simp: listdir_def isdir_def split: option.splits node.splits)
  with l show "analyze_all_runbooks fs d =
        Inr (List.map_filter
               (\<lambda>n. case analyze_runbook fs (path_join d n) of Inr a \<Rightarrow> Some a | Inl e \<Rightarrow> None)
               (filter (\<lambda>n. endswith (lower n) ''.md'') (sort names)))"
    by (simp add: analyze_all_runbooks_def analyze_names_eq)
qed

text \<open>
  A directory that exists and may not be listed: \<open>os.listdir\<close> raises, and the error leaves
  \<open>analyze_all_runbooks\<close>.
\<close>

theorem analyze_all_runbooks_raises:
  "isdir example_fs ''locked'' \<and>
   analyze_all_runbooks example_fs ''locked'' = Inl (PermissionError ''locked'')"
  by (simp add: analyze_all_runbooks_def isdir_def listdir_def example_fs_def)

lemma listdir_rb:
  "listdir example_fs ''rb'' = Inr [''b.MD'', ''notes.txt'', ''a.md'', ''sub.md'', ''gone.md'']"
  by (simp add: listdir_def example_fs_def)

lemma sorted_rb:
  "sort [''b.MD'', ''notes.txt'', ''a.md'', ''sub.md'', ''gone.md''] =
     [''a.md'', ''b.MD'', ''gone.md'', ''notes.txt'', ''sub.md'']"
  by code_simp

lemma md_rb:
  "filter (\<lambda>n. endswith (lower n) ''.md'') [''a.md'', ''b.MD'', ''gone.md'', ''notes.txt'', ''sub.md'']
     = [''a.md'', ''b.MD'', ''gone.md'', ''sub.md'']"
  by code_simp

lemma paths_rb:
  "path_join ''rb'' ''a.md'' = ''rb/a.md''" "path_join ''rb'' ''b.MD'' = ''rb/b.MD''"
  "path_join ''rb'' ''gone.md'' = ''rb/gone.md''" "path_join ''rb'' ''sub.md'' = ''rb/sub.md''"
  by code_simp+

lemma analyze_runbook_File_name:
  assumes "fs p = Some (File content)"
  shows "\<exists>r. analyze_runbook fs p = Inr r \<and> filename r = basename p"
  using assms by (simp add: analyze_runbook_def read_text_def Let_def split: prod.splits)

lemma rb_a: "\<exists>r. analyze_runbook example_fs ''rb/a.md'' = Inr r \<and> filename r = ''a.md''"
proof -
  have f: "example_fs ''rb/a.md'' = Some (File ''database latency'')"
    by (simp add: example_fs_def)
  have bn: "basename ''rb/a.md'' = ''a.md''"
    by code_simp
  show ?thesis
    using analyze_runbook_File_name[of example_fs "''rb/a.md''" "''database latency''"] f
    by (simp only: bn)
qed

lemma rb_b: "\<exists>r. analyze_runbook example_fs ''rb/b.MD'' = Inr r \<and> filename r = ''b.MD''"
proof -
  have f: "example_fs ''rb/b.MD'' = Some (File ''disk'')"
    by (simp add: example_fs_def)
  have bn: "basename ''rb/b.MD'' = ''b.MD''"
    by code_simp
  show ?thesis
    using analyze_runbook_File_name[of example_fs "''rb/b.MD''" "''disk''"] f
    by (simp only: bn)
qed

lemma rb_gone: "analyze_runbook example_fs ''rb/gone.md'' = Inl (FileNotFoundError ''rb/gone.md'')"
  by (simp add: analyze_runbook_def example_fs_def)

lemma rb_sub: "analyze_runbook example_fs ''rb/sub.md'' = Inl (IsADirectoryError ''rb/sub.md'')"
  by (simp add: analyze_runbook_def read_text_def example_fs_def)

theorem analyze_all_runbooks_skips_witness:
  "listdir example_fs ''rb'' = Inr [''b.MD'', ''notes.txt'', ''a.md'', ''sub.md'', ''gone.md''] \<and>
   (\<exists>a b. analyze_all_runbooks example_fs ''rb'' = Inr [a, b] \<and>
          filename a = ''a.md'' \<and> filename b = ''b.MD'')"
proof -
  from analyze_all_runbooks_skips[of example_fs "''rb''"
         "[''b.MD'', ''notes.txt'', ''a.md'', ''sub.md'', ''gone.md'']"]
  have "listdir example_fs ''rb'' = Inr [''b.MD'', ''notes.txt'', ''a.md'', ''sub.md'', ''gone.md''] \<longrightarrow>
        analyze_all_runbooks example_fs ''rb'' =
          Inr (List.map_filter
                 (\<lambda>n. case analyze_runbook example_fs (path_join ''rb'' n) of
                        Inr a \<Rightarrow> Some a | Inl e \<Rightarrow> None)
                 (filter (\<lambda>n. endswith (lower n) ''.md'')
                    (sort [''b.MD'', ''notes.txt'', ''a.md'', ''sub.md'', ''gone.md''])))"
    by (elim conjE)
  from this listdir_rb
  have "analyze_all_runbooks example_fs ''rb'' =
          Inr (List.map_filter
                 (\<lambda>n. case analyze_runbook example_fs (path_join ''rb'' n) of
                        Inr a \<Rightarrow> Some a | Inl e \<Rightarrow> None)
                 (filter (\<lambda>n. endswith (lower n) ''.md'')
                    (sort [''b.MD'', ''notes.txt'', ''a.md'', ''sub.md'', ''gone.md''])))"
    by (rule mp)
  then have run: "analyze_all_runbooks example_fs ''rb'' =
          Inr (List.map_filter
                 (\<lambda>n. case analyze_runbook example_fs (path_join ''rb'' n) of
                        Inr a \<Rightarrow> Some a | Inl e \<Rightarrow> None)
                 [''a.md'', ''b.MD'', ''gone.md'', ''sub.md''])"
    by (simp only: sorted_rb md_rb)
  from rb_a show ?thesis
  proof (elim exE conjE)
    fix a assume a: "analyze_runbook example_fs ''rb/a.md'' = Inr a" "filename a = ''a.md''"
    from rb_b show ?thesis
    proof (elim exE conjE)
      fix b assume b: "analyze_runbook example_fs ''rb/b.MD'' = Inr b" "filename b = ''b.MD''"
      have e: "analyze_all_runbooks example_fs ''rb'' = Inr [a, b]"
        unfolding run
        by (simp add: List.map_filter_simps paths_rb a(1) b(1) rb_gone rb_sub)
      show ?thesis
      proof (intro conjI exI)
        show "listdir example_fs ''rb'' = Inr [''b.MD'', ''notes.txt'', ''a.md'', ''sub.md'', ''gone.md'']"
          by (rule listdir_rb)
        show "analyze_all_runbooks example_fs ''rb'' = Inr [a, b]" by (rule e)
        show "filename a = ''a.md''" by (rule a(2))
        show "filename b = ''b.MD''" by (rule b(2))
      qed
    qed
  qed
qed

section \<open>Retrieval\<close>

text \<open>
  The readable candidates of a directory listing with their scores, in listing order, and
  the selection the loop makes among them: a candidate replaces the best so far only with
  a strictly greater score.
\<close>

definition is_file :: "filesystem \<Rightarrow> string \<Rightarrow> bool" where
  "is_file fs path = (case fs path of Some (File content) \<Rightarrow> True | _ \<Rightarrow> False)"

definition candidate_scores ::
  "filesystem \<Rightarrow> string \<Rightarrow> string list \<Rightarrow> string list \<Rightarrow> (string \<times> nat) list" where
  "candidate_scores fs d toks names =
     List.map_filter
       (\<lambda>n. case fs (path_join d n) of
              Some (File content) \<Rightarrow> Some (path_join d n, keyword_score toks content)
            | _ \<Rightarrow> None)
       (filter (\<lambda>n. endswith (lower n) ''.md'') names)"

fun pick_best :: "(string \<times> nat) list \<Rightarrow> nat \<times> string option \<Rightarrow> nat \<times> string option" where
  "pick_best [] best = best"
| "pick_best ((p, s) # cs) best = pick_best cs (if s > fst best then (s, Some p) else best)"

definition all_readable :: "filesystem \<Rightarrow> string \<Rightarrow> string list \<Rightarrow> bool" where
  "all_readable fs d names =
     list_all (\<lambda>n. endswith (lower n) ''.md'' \<longrightarrow> is_file fs (path_join d n)) names"

definition good_best :: "filesystem \<Rightarrow> string list \<Rightarrow> nat \<times> string option \<Rightarrow> bool" where
  "good_best fs toks best =
     (case snd best of
        None \<Rightarrow> fst best = 0
      | Some p \<Rightarrow> 0 < fst best \<and> (\<exists>content. fs p = Some (File content) \<and> keyword_score toks content = fst best))"

lemma candidate_scores_Nil: "candidate_scores fs d toks [] = []"
  by (simp add: candidate_scores_def List.map_filter_simps)

lemma candidate_scores_Cons:
  "candidate_scores fs d toks (n # names) =
     (if endswith (lower n) ''.md''
      then (case fs (path_join d n) of
              Some (File content) \<Rightarrow>
                (path_join d n, keyword_score toks content) # candidate_scores fs d toks names
            | _ \<Rightarrow> candidate_scores fs d toks names)
      else candidate_scores fs d toks names)"
  by (simp add: candidate_scores_def List.map_filter_simps split: option.splits node.splits)

lemma best_of_readable:
  "all_readable fs d names \<Longrightarrow>
   best_of fs d toks names best = Inr (pick_best (candidate_scores fs d toks names) best)"
proof (induction names arbitrary: best)
  case Nil
  then show ?case by (simp add: candidate_scores_Nil)
next
  case (Cons n names)
  from Cons.prems have rest: "all_readable fs d names"
    by (simp add: all_readable_def)
  show ?case
  proof (cases "endswith (lower n) ''.md''")
    case False
    then show ?thesis
      using Cons.IH[OF rest] by (simp add: candidate_scores_Cons)
  next
    case True
    with Cons.prems have "is_file fs (path_join d n)"
      by (simp add: all_readable_def)
    then obtain content where c: "fs (path_join d n) = Some (File content)"
      by (auto simp: is_file_def split: option.splits node.splits)
    show ?thesis
      using True c Cons.IH[OF rest]
      by (simp add: candidate_scores_Cons read_text_def Let_def)
  qed
qed

lemma best_of_inv:
  "best_of fs d toks names best = Inr best' \<Longrightarrow> good_best fs toks best \<Longrightarrow>
   good_best fs toks best' \<and> fst best \<le> fst best' \<and>
   (\<forall>n\<in>set names. endswith (lower n) ''.md'' \<longrightarrow>
      (\<forall>content. fs (path_join d n) = Some (File content) \<longrightarrow>
         keyword_score toks content \<le> fst best'))"
proof (induction names arbitrary: best)
  case Nil
  then show ?case by simp
next
  case (Cons n names)
  show ?case
  proof (cases "endswith (lower n) ''.md''")
    case False
    with Cons.prems have "best_of fs d toks names best = Inr best'" by simp
    from Cons.IH[OF this Cons.prems(2)] False show ?thesis by simp
  next
    case True
    with Cons.prems(1) obtain content where c: "fs (path_join d n) = Some (File content)"
      by (auto simp: read_text_def Let_def split: option.splits node.splits)
    define best1 where
      "best1 = (if keyword_score toks content > fst best
                then (keyword_score toks content, Some (path_join d n)) else best)"
    have step: "best_of fs d toks names best1 = Inr best'"
      using Cons.prems(1) True c by (simp add: read_text_def Let_def best1_def split: if_splits)
    have g1: "good_best fs toks best1"
      using Cons.prems(2) c by (simp add: best1_def good_best_def)
    have le1: "fst best \<le> fst best1" "keyword_score toks content \<le> fst best1"
      by (simp_all add: best1_def)
    from Cons.IH[OF step g1] le1 c show ?thesis
      by auto
  qed
qed

lemma pick_best_props:
  "pick_best cs best = (m, r) \<Longrightarrow>
   (m = fst best \<and> r = snd best \<and> (\<forall>j<length cs. snd (cs ! j) \<le> fst best)) \<or>
   (\<exists>i<length cs. r = Some (fst (cs ! i)) \<and> snd (cs ! i) = m \<and> fst best < m \<and>
      (\<forall>j<length cs. snd (cs ! j) \<le> m) \<and> (\<forall>j<i. snd (cs ! j) < m))"
proof (induction cs arbitrary: best)
  case Nil
  then show ?case by auto
next
  case (Cons c cs)
  obtain p s where c: "c = (p, s)" by (cases c)
  define best1 where "best1 = (if s > fst best then (s, Some p) else best)"
  have step: "pick_best cs best1 = (m, r)"
    using Cons.prems by (simp add: c best1_def)
  from Cons.IH[OF step]
  consider (same) "m = fst best1" "r = snd best1" "\<forall>j<length cs. snd (cs ! j) \<le> fst best1"
    | (later) i where "i < length cs" "r = Some (fst (cs ! i))" "snd (cs ! i) = m" "fst best1 < m"
        "\<forall>j<length cs. snd (cs ! j) \<le> m" "\<forall>j<i. snd (cs ! j) < m"
    by blast
  then show ?case
  proof cases
    case same
    show ?thesis
    proof (cases "s > fst best")
      case True
      then have b1: "best1 = (s, Some p)" by (simp add: best1_def)
      have "0 < length (c # cs) \<and> r = Some (fst ((c # cs) ! 0)) \<and> snd ((c # cs) ! 0) = m \<and>
            fst best < m \<and> (\<forall>j<length (c # cs). snd ((c # cs) ! j) \<le> m) \<and>
            (\<forall>j<0. snd ((c # cs) ! j) < m)"
        using same True b1 c by (auto simp: nth_Cons split: nat.splits)
      then show ?thesis by blast
    next
      case False
      then have b1: "best1 = best" by (simp add: best1_def)
      have "m = fst best \<and> r = snd best \<and> (\<forall>j<length (c # cs). snd ((c # cs) ! j) \<le> fst best)"
        using same False b1 c by (auto simp: nth_Cons split: nat.splits)
      then show ?thesis by blast
    qed
  next
    case later
    have le: "fst best \<le> fst best1" "s \<le> fst best1"
      by (simp_all add: best1_def)
    have "Suc i < length (c # cs) \<and> r = Some (fst ((c # cs) ! Suc i)) \<and>
          snd ((c # cs) ! Suc i) = m \<and> fst best < m \<and>
          (\<forall>j<length (c # cs). snd ((c # cs) ! j) \<le> m) \<and>
          (\<forall>j<Suc i. snd ((c # cs) ! j) < m)"
      using later le c by (auto simp: nth_Cons split: nat.splits)
    then show ?thesis by blast
  qed
qed


lemma find_best_readable:
  assumes "listdir fs d = Inr names" "all_readable fs d names"
  shows "find_best_runbook fs d alert =
           Inr (snd (pick_best (candidate_scores fs d (tokens alert) names) (0, None)))"
proof -
  have "isdir fs d"
    using assms(1) by (auto simp: listdir_def isdir_def split: option.splits node.splits)
  then show ?thesis
    using assms by (simp add: find_best_runbook_def Let_def best_of_readable)
qed

text \<open>
  C8. A path that is not a directory gives no match. For a directory that can be listed
  and whose \<open>.md\<close> entries can all be read, the finder returns without an error; it returns
  no match exactly when no candidate has a score above 0; and a path it returns is that of
  the first candidate, in listing order, whose score is the greatest one: every score is
  at most its score and every score before it is smaller.
\<close>

theorem find_best_runbook_first_max:
  "(\<not> isdir fs d \<longrightarrow> find_best_runbook fs d alert = Inr None) \<and>
   (listdir fs d = Inr names \<and> all_readable fs d names \<longrightarrow>
     (let cs = candidate_scores fs d (tokens alert) names in
       (\<exists>r. find_best_runbook fs d alert = Inr r) \<and>
       (find_best_runbook fs d alert = Inr None \<longleftrightarrow> (\<forall>c\<in>set cs. snd c = 0)) \<and>
       (\<forall>p. find_best_runbook fs d alert = Inr (Some p) \<longrightarrow>
          (\<exists>i<length cs. fst (cs ! i) = p \<and> 0 < snd (cs ! i) \<and>
             (\<forall>j<length cs. snd (cs ! j) \<le> snd (cs ! i)) \<and>
             (\<forall>j<i. snd (cs ! j) < snd (cs ! i))))))"
proof (intro conjI impI)
  assume "\<not> isdir fs d"
  then show "find_best_runbook fs d alert = Inr None"
    by (simp add: find_best_runbook_def)
next
  assume "listdir fs d = Inr names \<and> all_readable fs d names"
  then have l: "listdir fs d = Inr names" and ar: "all_readable fs d names"
    by simp_all
  define cs where "cs = candidate_scores fs d (tokens alert) names"
  obtain m r where mr: "pick_best cs (0, None) = (m, r)"
    by (cases "pick_best cs (0, None)")
  have res: "find_best_runbook fs d alert = Inr r"
    using find_best_readable[OF l ar, of alert] mr by (simp add: cs_def)
  from pick_best_props[OF mr]
  consider (none) "m = 0" "r = None" "\<forall>j<length cs. snd (cs ! j) \<le> 0"
    | (some) i where "i < length cs" "r = Some (fst (cs ! i))" "snd (cs ! i) = m" "0 < m"
        "\<forall>j<length cs. snd (cs ! j) \<le> m" "\<forall>j<i. snd (cs ! j) < m"
    by auto
  then have "(\<exists>r. find_best_runbook fs d alert = Inr r) \<and>
     (find_best_runbook fs d alert = Inr None \<longleftrightarrow> (\<forall>c\<in>set cs. snd c = 0)) \<and>
     (\<forall>p. find_best_runbook fs d alert = Inr (Some p) \<longrightarrow>
        (\<exists>i<length cs. fst (cs ! i) = p \<and> 0 < snd (cs ! i) \<and>
           (\<forall>j<length cs. snd (cs ! j) \<le> snd (cs ! i)) \<and>
           (\<forall>j<i. snd (cs ! j) < snd (cs ! i))))"
  proof cases
    case none
    have "\<forall>c\<in>set cs. snd c = 0"
    proof
      fix c assume "c \<in> set cs"
      then obtain j where "j < length cs" "cs ! j = c"
        by (auto simp: in_set_conv_nth)
      with none(3) show "snd c = 0" by auto
    qed
    with none res show ?thesis by simp
  next
    case some
    have "cs ! i \<in> set cs" using some(1) by simp
    with some(3,4) have "\<not> (\<forall>c\<in>set cs. snd c = 0)" by auto
    moreover have "\<exists>k<length cs. fst (cs ! k) = fst (cs ! i) \<and> 0 < snd (cs ! k) \<and>
           (\<forall>j<length cs. snd (cs ! j) \<le> snd (cs ! k)) \<and>
           (\<forall>j<k. snd (cs ! j) < snd (cs ! k))"
      using some by (intro exI[of _ i]) simp
    ultimately show ?thesis
      using res some(2) by simp
  qed
  then show "let cs = candidate_scores fs d (tokens alert) names in
       (\<exists>r. find_best_runbook fs d alert = Inr r) \<and>
       (find_best_runbook fs d alert = Inr None \<longleftrightarrow> (\<forall>c\<in>set cs. snd c = 0)) \<and>
       (\<forall>p. find_best_runbook fs d alert = Inr (Some p) \<longrightarrow>
          (\<exists>i<length cs. fst (cs ! i) = p \<and> 0 < snd (cs ! i) \<and>
             (\<forall>j<length cs. snd (cs ! j) \<le> snd (cs ! i)) \<and>
             (\<forall>j<i. snd (cs ! j) < snd (cs ! i))))"
    by (simp add: cs_def Let_def)
qed

lemma keyword_score_zero_iff:
  "keyword_score toks content = 0 \<longleftrightarrow>
     (\<forall>t\<in>set toks. t = [] \<or> \<not> (\<exists>pre post. lower content = pre @ t @ post))"
  by (auto simp: keyword_score_def Let_def filter_empty_conv contains_iff)

lemma find_best_beats_lower:
  assumes dir: "listdir fs d = Inr names"
    and n1: "n1 \<in> set names" "endswith (lower n1) ''.md''" "fs (path_join d n1) = Some (File c1)"
    and p0: "fs p0 = Some (File c0)"
    and less: "keyword_score (tokens alert) c0 < keyword_score (tokens alert) c1"
  shows "find_best_runbook fs d alert \<noteq> Inr (Some p0) \<and> find_best_runbook fs d alert \<noteq> Inr None"
proof -
  have isd: "isdir fs d"
    using dir by (auto simp: listdir_def isdir_def split: option.splits node.splits)
  have g0: "good_best fs (tokens alert) (0, None)"
    by (simp add: good_best_def)
  have "find_best_runbook fs d alert \<noteq> Inr r" if r: "r = Some p0 \<or> r = None" for r
  proof
    assume eq: "find_best_runbook fs d alert = Inr r"
    then obtain best' where b: "best_of fs d (tokens alert) names (0, None) = Inr best'" "snd best' = r"
      using isd dir by (auto simp: find_best_runbook_def Let_def split: sum.splits)
    from best_of_inv[OF b(1) g0] n1
    have g: "good_best fs (tokens alert) best'"
      and le: "keyword_score (tokens alert) c1 \<le> fst best'"
      by simp_all
    from r show False
    proof
      assume "r = Some p0"
      with g b(2) p0 have "keyword_score (tokens alert) c0 = fst best'"
        by (simp add: good_best_def)
      with le less show False by simp
    next
      assume "r = None"
      with g b(2) have "fst best' = 0" by (simp add: good_best_def)
      with le less show False by simp
    qed
  qed
  then show ?thesis by simp
qed

lemma tokens_alert: "tokens ''Database Latency High'' = [''database'', ''latency'', ''high'']"
  by code_simp

lemma keyword_score_two:
  assumes "\<exists>pre post. lower c1 = pre @ ''database'' @ post"
    and "\<exists>pre post. lower c1 = pre @ ''latency'' @ post"
    and "\<not> (\<exists>pre post. lower c1 = pre @ ''high'' @ post)"
  shows "keyword_score [''database'', ''latency'', ''high''] c1 = 2"
proof -
  have "contains (lower c1) ''database''" "contains (lower c1) ''latency''"
       "\<not> contains (lower c1) ''high''"
    using assms unfolding contains_iff by - assumption+
  then show ?thesis
    by (simp add: keyword_score_def Let_def)
qed

text \<open>
  C5. For the alert text "Database Latency High" a candidate whose lower-cased text holds
  "database" and "latency" and not "high" scores exactly 2, a document that holds none of
  the three tokens scores 0, and in a directory that lists the first as a runbook the
  finder never returns the second, nor no match.
\<close>

theorem keyword_match_database_latency:
  assumes "\<exists>pre post. lower c1 = pre @ ''database'' @ post"
    and "\<exists>pre post. lower c1 = pre @ ''latency'' @ post"
    and "\<not> (\<exists>pre post. lower c1 = pre @ ''high'' @ post)"
    and "listdir fs d = Inr names"
    and "n1 \<in> set names" "endswith (lower n1) ''.md''" "fs (path_join d n1) = Some (File c1)"
    and "fs p0 = Some (File c0)"
    and "\<forall>t\<in>set (tokens ''Database Latency High''). \<not> (\<exists>pre post. lower c0 = pre @ t @ post)"
  shows "keyword_score (tokens ''Database Latency High'') c1 = 2 \<and>
         keyword_score (tokens ''Database Latency High'') c0 = 0 \<and>
         find_best_runbook fs d ''Database Latency High'' \<noteq> Inr (Some p0) \<and>
         find_best_runbook fs d ''Database Latency High'' \<noteq> Inr None"
proof -
  have two: "keyword_score (tokens ''Database Latency High'') c1 = 2"
    unfolding tokens_alert using assms(1-3) by (rule keyword_score_two)
  have zero: "keyword_score (tokens ''Database Latency High'') c0 = 0"
    unfolding keyword_score_zero_iff using assms(9) by simp
  have "keyword_score (tokens ''Database Latency High'') c0
          < keyword_score (tokens ''Database Latency High'') c1"
    by (simp only: two zero)
  from find_best_beats_lower[OF assms(4-8) this] two zero
  show ?thesis by simp
qed

lemma listdir_ok: "listdir example_fs ''ok'' = Inr [''z.md'', ''b.md'', ''a.md'']"
  by (simp add: listdir_def example_fs_def)

lemma ok_b: "example_fs (path_join ''ok'' ''b.md'') = Some (File ''Latency of the DATABASE'')"
proof -
  have "path_join ''ok'' ''b.md'' = ''ok/b.md''" by code_simp
  then show ?thesis by (simp add: example_fs_def)
qed

lemma ok_z: "example_fs ''ok/z.md'' = Some (File ''disk full'')"
  by (simp add: example_fs_def)

theorem keyword_match_database_latency_witness:
  "keyword_score (tokens ''Database Latency High'') ''Latency of the DATABASE'' = 2 \<and>
   keyword_score (tokens ''Database Latency High'') ''disk full'' = 0 \<and>
   find_best_runbook example_fs ''ok'' ''Database Latency High'' \<noteq> Inr (Some ''ok/z.md'') \<and>
   find_best_runbook example_fs ''ok'' ''Database Latency High'' \<noteq> Inr None"
proof -
  have h1: "\<exists>pre post. lower ''Latency of the DATABASE'' = pre @ ''database'' @ post"
    unfolding contains_iff[symmetric] by code_simp
  have h2: "\<exists>pre post. lower ''Latency of the DATABASE'' = pre @ ''latency'' @ post"
    unfolding contains_iff[symmetric] by code_simp
  have h3: "\<not> (\<exists>pre post. lower ''Latency of the DATABASE'' = pre @ ''high'' @ post)"
    unfolding contains_iff[symmetric] by code_simp
  have h5: "''b.md'' \<in> set [''z.md'', ''b.md'', ''a.md'']"
    by simp
  have h6: "endswith (lower ''b.md'') ''.md''"
    by code_simp
  have h9: "\<forall>t\<in>set (tokens ''Database Latency High'').
              \<not> (\<exists>pre post. lower ''disk full'' = pre @ t @ post)"
    unfolding contains_iff[symmetric] by code_simp
  show ?thesis
    by (rule keyword_match_database_latency[OF h1 h2 h3 listdir_ok h5 h6 ok_b ok_z h9])
qed

lemma all_readable_ok: "all_readable example_fs ''ok'' [''z.md'', ''b.md'', ''a.md'']"
  by code_simp

lemma candidate_scores_ok:
  "candidate_scores example_fs ''ok'' (tokens ''Database Latency High'') [''z.md'', ''b.md'', ''a.md'']
     = [(''ok/z.md'', 0), (''ok/b.md'', 2), (''ok/a.md'', 2)]"
  by code_simp

lemma find_best_ok:
  "find_best_runbook example_fs ''ok'' ''Database Latency High'' = Inr (Some ''ok/b.md'')"
  by code_simp

theorem find_best_runbook_first_max_witness:
  "listdir example_fs ''ok'' = Inr [''z.md'', ''b.md'', ''a.md''] \<and>
   all_readable example_fs ''ok'' [''z.md'', ''b.md'', ''a.md''] \<and>
   candidate_scores example_fs ''ok'' (tokens ''Database Latency High'') [''z.md'', ''b.md'', ''a.md'']
     = [(''ok/z.md'', 0), (''ok/b.md'', 2), (''ok/a.md'', 2)] \<and>
   find_best_runbook example_fs ''ok'' ''Database Latency High'' \<noteq> Inr None \<and>
   find_best_runbook example_fs ''ok'' ''Database Latency High'' = Inr (Some ''ok/b.md'')"
proof -
  from find_best_runbook_first_max[of example_fs "''ok''" "''Database Latency High''"
         "[''z.md'', ''b.md'', ''a.md'']"] listdir_ok all_readable_ok
  have "find_best_runbook example_fs ''ok'' ''Database Latency High'' = Inr None \<longleftrightarrow>
        (\<forall>c\<in>set (candidate_scores example_fs ''ok'' (tokens ''Database Latency High'')
                     [''z.md'', ''b.md'', ''a.md'']). snd c = 0)"
    by (simp only: Let_def simp_thms)
  then have "find_best_runbook example_fs ''ok'' ''Database Latency High'' \<noteq> Inr None"
    by (simp only: candidate_scores_ok) simp
  with listdir_ok all_readable_ok candidate_scores_ok find_best_ok show ?thesis
    by (intro conjI)
qed

text \<open>
  A directory with a subdirectory whose name ends in \<open>.md\<close>: no candidate document has a
  score above 0, and the finder does not return: the error of reading the subdirectory
  leaves it.
\<close>

theorem find_best_runbook_raises:
  "isdir example_fs ''rb'' \<and>
   listdir example_fs ''rb'' = Inr [''b.MD'', ''notes.txt'', ''a.md'', ''sub.md'', ''gone.md''] \<and>
   candidate_scores example_fs ''rb'' (tokens ''cpu spike'')
       [''b.MD'', ''notes.txt'', ''a.md'', ''sub.md'', ''gone.md'']
     = [(''rb/b.MD'', 0), (''rb/a.md'', 0)] \<and>
   find_best_runbook example_fs ''rb'' ''cpu spike'' = Inl (IsADirectoryError ''rb/sub.md'')"
  by code_simp


section \<open>A complete document\<close>

















end
